theory Spec2Isabelle
  imports Complex_Main "HOL-Library.AList" "HOL-Library.Char_ord" "HOL-Library.List_Lexorder"
begin

section \<open>Python values, strings and dictionaries\<close>

text \<open>
  The JSON values that the device registry holds. The numbers of a registry are integers
  (states, channels, temperatures, ranges); a Python int is unbounded.
\<close>

datatype pyval =
    VNone
  | VBool bool
  | VInt int
  | VStr string
  | VList "pyval list"
  | VDict "(string \<times> pyval) list"

text \<open>
  A \<open>dict\<close> with string keys is an association list in insertion order: assignment
  to a present key overwrites in place, assignment to a new key appends.
\<close>

type_synonym 'v dict = "(string \<times> 'v) list"

definition dict_get :: "'v dict \<Rightarrow> string \<Rightarrow> 'v option" where
  "dict_get d k = map_of d k"

definition dict_set :: "'v dict \<Rightarrow> string \<Rightarrow> 'v \<Rightarrow> 'v dict" where
  "dict_set d k v = AList.update k v d"

text \<open>\<open>d.update(other)\<close>: every item of \<open>other\<close> is assigned into \<open>d\<close>, in order.\<close>

fun dict_update :: "'v dict \<Rightarrow> 'v dict \<Rightarrow> 'v dict" where
  "dict_update d [] = d"
| "dict_update d ((k, v) # kvs) = dict_update (dict_set d k v) kvs"

definition dict_values :: "'v dict \<Rightarrow> 'v list" where
  "dict_values d = map snd d"

text \<open>\<open>str.lower()\<close> on ASCII text.\<close>

definition lower_char :: "char \<Rightarrow> char" where
  "lower_char c =
     (let n = (of_char c :: nat) in if 65 \<le> n \<and> n \<le> 90 then char_of (n + 32) else c)"

definition py_lower :: "string \<Rightarrow> string" where
  "py_lower s = map lower_char s"

text \<open>\<open>str(n)\<close> for an int.\<close>

definition digit_char :: "nat \<Rightarrow> char" where
  "digit_char n = char_of (48 + n)"

function nat_str :: "nat \<Rightarrow> string" where
  "nat_str n = (if n < 10 then [digit_char n] else nat_str (n div 10) @ [digit_char (n mod 10)])"
  by pat_completeness auto
termination
  by (relation "measure id") auto

definition int_str :: "int \<Rightarrow> string" where
  "int_str i = (if i < 0 then CHR ''-'' # nat_str (nat (- i)) else nat_str (nat i))"

text \<open>The degree sign of the messages, as its two UTF-8 bytes.\<close>

definition degree_C :: string where
  "degree_C = [CHR 0xC2, CHR 0xB0, CHR ''C'']"

section \<open>The device registry (\<open>SmartHomeController\<close>)\<close>

text \<open>
  \<open>datetime.now()\<close> reads a clock outside the program. The model is given the clock as
  a function from the number of readings made so far to the value read; the controller
  counts its readings in \<open>ticks\<close>.
\<close>

record datetime =
  dt_iso :: string
  dt_hour :: nat

text \<open>
  An entry of the registry: \<open>d['id']\<close>, \<open>d['name']\<close>, \<open>d['type']\<close>,
  \<open>d['location']['room']\<close>, the dict \<open>d['state']\<close> and \<open>d['last_updated']\<close>.
\<close>

record device =
  dev_id :: string
  dev_name :: string
  dev_type :: string
  dev_room :: string
  dev_state :: "pyval dict"
  last_updated :: string

record command_history_entry =
  timestamp :: datetime
  command :: string
  devices_affected :: "string list"
  action :: string
  success :: bool

record controller =
  devices :: "device dict"
  command_history :: "command_history_entry list"
  ticks :: nat

text \<open>
  The registry file maps each device id to the record of that device, whose \<open>id\<close> entry
  repeats the key; as a dict it has no key twice.
\<close>

definition keyed_by_id :: "device dict \<Rightarrow> bool" where
  "keyed_by_id ds = (list_all (\<lambda>(k, d). dev_id d = k) ds \<and> distinct (map fst ds))"


definition get_devices_by_room :: "controller \<Rightarrow> string \<Rightarrow> device list" where
  "get_devices_by_room c room =
     filter (\<lambda>d. py_lower (dev_room d) = py_lower room) (dict_values (devices c))"

definition get_devices_by_type :: "controller \<Rightarrow> string \<Rightarrow> device list" where
  "get_devices_by_type c device_type =
     filter (\<lambda>d. dev_type d = device_type) (dict_values (devices c))"

definition update_device_state ::
  "(nat \<Rightarrow> datetime) \<Rightarrow> controller \<Rightarrow> string \<Rightarrow> pyval dict \<Rightarrow> controller \<times> bool" where
  "update_device_state now c device_id new_state =
     (case dict_get (devices c) device_id of
        Some d \<Rightarrow>
          (c\<lparr>devices :=
               dict_set (devices c) device_id
                 (d\<lparr>dev_state := dict_update (dev_state d) new_state,
                    last_updated := dt_iso (now (ticks c))\<rparr>),
             ticks := Suc (ticks c)\<rparr>,
           True)
      | None \<Rightarrow> (c, False))"

definition log_command ::
  "(nat \<Rightarrow> datetime) \<Rightarrow> controller \<Rightarrow> string \<Rightarrow> string list \<Rightarrow> string \<Rightarrow> bool \<Rightarrow> controller" where
  "log_command now c cmd devs act ok =
     c\<lparr>command_history :=
          command_history c @
            [\<lparr>timestamp = now (ticks c), command = cmd, devices_affected = devs,
              action = act, success = ok\<rparr>],
        ticks := Suc (ticks c)\<rparr>"

section \<open>The tools over the controller\<close>



text \<open>
  \<open>set_thermostat\<close>. The temperature is a Python int here, as in the call
  \<open>set_thermostat("living_room", 22)\<close>; \<open>str\<close> of it is its decimal numeral.
\<close>

definition set_thermostat ::
  "(nat \<Rightarrow> datetime) \<Rightarrow> controller \<Rightarrow> string \<Rightarrow> int \<Rightarrow> controller \<times> string" where
  "set_thermostat now c room temperature =
     (case filter (\<lambda>d. dev_type d = ''thermostat'') (get_devices_by_room c room) of
        [] \<Rightarrow> (c, ''No thermostat found in '' @ room)
      | thermostat # _ \<Rightarrow>
          (let new_state = [(''target_temperature'', VInt temperature), (''status'', VStr ''on'')]
           in case update_device_state now c (dev_id thermostat) new_state of
                (c1, True) \<Rightarrow>
                  (log_command now c1
                     (''Set thermostat in '' @ room @ '' to '' @ int_str temperature)
                     [dev_id thermostat]
                     (''set_temperature_'' @ int_str temperature) True,
                   ''Set thermostat in '' @ room @ '' to '' @ int_str temperature @ degree_C)
              | (c1, False) \<Rightarrow> (c1, ''Failed to set thermostat in '' @ room)))"

section \<open>The device file and its tools (\<open>SmartHomeTools\<close>)\<close>

text \<open>
  \<open>devices.json\<close> holds a list of gadgets and a list of rooms. A gadget is a JSON
  object; its \<open>id\<close> is a string and is never assigned by a tool, so the model keeps it
  beside the dict of the other entries (\<open>type\<close>, \<open>room\<close>, \<open>state\<close>, \<open>on\<close>,
  \<open>temperature\<close>, \<open>range\<close>, \<open>locked\<close>, ...). Numbers in the file are integers.
  Reading and writing the file are taken to succeed and to preserve the data.

  \<open>self.data["gadgets"]\<close> shares its gadget objects with \<open>self.gadgets\<close>; the code
  replaces that list before every write and reloads it before every read, so the model
  keeps in \<open>data\<close> the list as it was loaded or saved last.
\<close>

datatype py_error =
  KeyError string | IndexError string | TypeError string | Malformed string

record gadget =
  gid :: string
  gfields :: "pyval dict"

record room_entry =
  room_name :: string
  room_fields :: "pyval dict"

record data_file =
  df_gadgets :: "gadget list"
  df_rooms :: "room_entry list"

record tools_state =
  disk :: data_file
  data :: data_file
  gadgets :: "gadget dict"
  rooms :: "room_entry dict"

text \<open>The comprehension \<open>{key(x): x for x in xs}\<close>.\<close>

definition dict_from :: "('a \<Rightarrow> string) \<Rightarrow> 'a list \<Rightarrow> 'a dict" where
  "dict_from key xs = foldl (\<lambda>d x. dict_set d (key x) x) [] xs"

definition load_devices :: "tools_state \<Rightarrow> tools_state" where
  "load_devices st =
     st\<lparr>data := disk st,
        gadgets := dict_from gid (df_gadgets (disk st)),
        rooms := dict_from room_name (df_rooms (disk st))\<rparr>"

definition save_devices :: "tools_state \<Rightarrow> tools_state" where
  "save_devices st =
     (let data' = (data st)\<lparr>df_gadgets := dict_values (gadgets st)\<rparr>
      in st\<lparr>data := data', disk := data'\<rparr>)"

text \<open>\<open>device[k] = v\<close> on the gadget stored under \<open>device_id\<close>.\<close>

definition set_field :: "tools_state \<Rightarrow> string \<Rightarrow> string \<Rightarrow> pyval \<Rightarrow> tools_state" where
  "set_field st device_id k v =
     (case dict_get (gadgets st) device_id of
        None \<Rightarrow> st
      | Some device \<Rightarrow>
          st\<lparr>gadgets :=
               dict_set (gadgets st) device_id
                 (device\<lparr>gfields := dict_set (gfields device) k v\<rparr>)\<rparr>)"

definition get_field :: "tools_state \<Rightarrow> string \<Rightarrow> string \<Rightarrow> pyval option" where
  "get_field st device_id k =
     (case dict_get (gadgets st) device_id of
        None \<Rightarrow> None
      | Some device \<Rightarrow> dict_get (gfields device) k)"

text \<open>
  \<open>min_temp, max_temp = device["range"]\<close>. The range of an AC in the device file is a
  pair of integers; on any other value the model stops with \<open>Malformed\<close>.
\<close>

fun unpack_range :: "pyval \<Rightarrow> py_error + (int \<times> int)" where
  "unpack_range (VList [VInt lo, VInt hi]) = Inr (lo, hi)"
| "unpack_range _ = Inl (Malformed ''range'')"

definition control_ac ::
  "tools_state \<Rightarrow> string \<Rightarrow> string \<Rightarrow> int option \<Rightarrow> py_error + (tools_state \<times> string)" where
  "control_ac st device_id power_arg temperature =
     (let st1 = load_devices st in
      case dict_get (gadgets st1) device_id of
        None \<Rightarrow> Inr (st1, ''Device '' @ device_id @ '' not found'')
      | Some device \<Rightarrow>
          (case dict_get (gfields device) ''type'' of
             None \<Rightarrow> Inl (KeyError ''type'')
           | Some ty \<Rightarrow>
               if ty \<noteq> VStr ''ac'' then Inr (st1, device_id @ '' is not an AC'')
               else
                 (let is_on = (py_lower power_arg = ''on'');
                      st2 = set_field st1 device_id ''on'' (VBool is_on);
                      status = (if is_on then ''ON'' else ''OFF'')
                  in case temperature of
                       None \<Rightarrow>
                         Inr (save_devices st2, ''Set '' @ device_id @ '' to '' @ status)
                     | Some t \<Rightarrow>
                         (case get_field st2 device_id ''range'' of
                            None \<Rightarrow> Inl (KeyError ''range'')
                          | Some r \<Rightarrow>
                              (case unpack_range r of
                                 Inl e \<Rightarrow> Inl e
                               | Inr (min_temp, max_temp) \<Rightarrow>
                                   if min_temp \<le> t \<and> t \<le> max_temp then
                                     Inr (save_devices
                                            (set_field st2 device_id ''temperature'' (VInt t)),
                                          ''Set '' @ device_id @ '' to '' @ status @
                                            (if is_on \<and> t \<noteq> 0
                                             then '' at '' @ int_str t @ degree_C else []))
                                   else
                                     Inr (st2,
                                          ''Temperature must be between '' @ int_str min_temp
                                            @ degree_C @ '' and '' @ int_str max_temp
                                            @ degree_C))))))"

definition control_door_lock ::
  "tools_state \<Rightarrow> string \<Rightarrow> string \<Rightarrow> py_error + (tools_state \<times> string)" where
  "control_door_lock st device_id act =
     (let st1 = load_devices st in
      case dict_get (gadgets st1) device_id of
        None \<Rightarrow> Inr (st1, ''Device '' @ device_id @ '' not found'')
      | Some device \<Rightarrow>
          (case dict_get (gfields device) ''type'' of
             None \<Rightarrow> Inl (KeyError ''type'')
           | Some ty \<Rightarrow>
               if ty \<noteq> VStr ''door_lock'' then Inr (st1, device_id @ '' is not a door lock'')
               else
                 (let is_locked = (py_lower act = ''lock'')
                  in Inr (save_devices (set_field st1 device_id ''locked'' (VBool is_locked)),
                          device_id @ '' is now ''
                            @ (if is_locked then ''locked'' else ''unlocked'')))))"

text \<open>The table of scenes of \<open>create_scene\<close>: name, description, actions.\<close>

definition scenes :: "(string \<times> string \<times> (string \<times> pyval dict) list) list" where
  "scenes =
     [(''movie'', ''Movie night mode'',
         [(''light_living'', [(''state'', VInt 0)]),
          (''tv_living'', [(''channel'', VInt 4)]),
          (''ac_living'', [(''on'', VBool True), (''temperature'', VInt 22)])]),
      (''sleep'', ''Sleep mode'',
         [(''light_living'', [(''state'', VInt 0)]),
          (''light_bedroom'', [(''state'', VInt 0)]),
          (''tv_living'', [(''channel'', VInt 0)]),
          (''door_bedroom'', [(''locked'', VBool True)])]),
      (''away'', ''Away mode - secure home'',
         [(''light_living'', [(''state'', VInt 0)]),
          (''light_bedroom'', [(''state'', VInt 0)]),
          (''tv_living'', [(''channel'', VInt 0)]),
          (''ac_living'', [(''on'', VBool False)]),
          (''door_bedroom'', [(''locked'', VBool True)])]),
      (''morning'', ''Morning mode'',
         [(''light_living'', [(''state'', VInt 2)]),
          (''light_bedroom'', [(''state'', VInt 1)]),
          (''tv_living'', [(''channel'', VInt 1)]),
          (''door_bedroom'', [(''locked'', VBool False)])])]"

text \<open>The loop over the actions of a scene: a gadget that exists takes the patch.\<close>

fun apply_actions :: "(string \<times> pyval dict) list \<Rightarrow> gadget dict \<Rightarrow> gadget dict" where
  "apply_actions [] gs = gs"
| "apply_actions ((device_id, changes) # actions) gs =
     apply_actions actions
       (case dict_get gs device_id of
          None \<Rightarrow> gs
        | Some g \<Rightarrow> dict_set gs device_id (g\<lparr>gfields := dict_update (gfields g) changes\<rparr>))"

definition create_scene :: "tools_state \<Rightarrow> string \<Rightarrow> tools_state \<times> string" where
  "create_scene st scene_name =
     (let st1 = load_devices st in
      case map_of scenes (py_lower scene_name) of
        None \<Rightarrow>
          (st1, ''Scene '' @ [CHR 0x27] @ scene_name @ [CHR 0x27] @ '' not found. Available: ''
                  @ ''movie, sleep, away, morning'')
      | Some (description, actions) \<Rightarrow>
          (save_devices (st1\<lparr>gadgets := apply_actions actions (gadgets st1)\<rparr>),
           ''Activated scene: '' @ description))"

subsection \<open>Invariants of the gadgets and the scene table\<close>

text \<open>A dict built by \<open>{key(x): x for x in xs}\<close> holds each value under its own key.\<close>

definition keyed_by :: "('a \<Rightarrow> string) \<Rightarrow> 'a dict \<Rightarrow> bool" where
  "keyed_by key d = (list_all (\<lambda>(k, x). key x = k) d \<and> distinct (map fst d))"

text \<open>
  The scene table is written with dict literals: no scene names a device twice and no
  patch names a field twice.
\<close>

definition patches_ok :: "(string \<times> pyval dict) list \<Rightarrow> bool" where
  "patches_ok actions =
     (distinct (map fst actions) \<and> list_all (\<lambda>(device_id, changes). distinct (map fst changes)) actions)"

text \<open>Every patch of the actions is already in force on the gadgets.\<close>

definition settled :: "(string \<times> pyval dict) list \<Rightarrow> gadget dict \<Rightarrow> bool" where
  "settled actions gs =
     list_all (\<lambda>(i, ch). case dict_get gs i of None \<Rightarrow> True
                 | Some g \<Rightarrow> dict_update (gfields g) ch = gfields g) actions"

section \<open>Strings and regular expressions as the parser uses them\<close>

text \<open>
  Text is ASCII: a character is a byte, \<open>\<^verbatim>\<open>\w\<close>\<close> is a letter, a digit or the underscore,
  \<open>\<^verbatim>\<open>\d\<close>\<close> a decimal digit and \<open>\<^verbatim>\<open>\s\<close>\<close> (as \<open>str.strip\<close>) one of the ASCII
  whitespace characters.
\<close>

definition is_digit :: "char \<Rightarrow> bool" where
  "is_digit c = (let n = (of_char c :: nat) in 48 \<le> n \<and> n \<le> 57)"

definition is_space :: "char \<Rightarrow> bool" where
  "is_space c = (let n = (of_char c :: nat) in (9 \<le> n \<and> n \<le> 13) \<or> (28 \<le> n \<and> n \<le> 32))"

definition is_word :: "char \<Rightarrow> bool" where
  "is_word c =
     (let n = (of_char c :: nat)
      in (48 \<le> n \<and> n \<le> 57) \<or> (65 \<le> n \<and> n \<le> 90) \<or> (97 \<le> n \<and> n \<le> 122) \<or> n = 95)"

text \<open>The class \<open>[a-z_\s]\<close>.\<close>

definition is_room_char :: "char \<Rightarrow> bool" where
  "is_room_char c = (let n = (of_char c :: nat) in (97 \<le> n \<and> n \<le> 122) \<or> n = 95 \<or> is_space c)"

definition py_strip :: "string \<Rightarrow> string" where
  "py_strip s = rev (dropWhile is_space (rev (dropWhile is_space s)))"

text \<open>\<open>s.replace(a, b)\<close> for single characters \<open>a\<close> and \<open>b\<close>.\<close>

definition replace_char :: "char \<Rightarrow> char \<Rightarrow> string \<Rightarrow> string" where
  "replace_char a b s = map (\<lambda>c. if c = a then b else c) s"

text \<open>\<open>sub in s\<close> on strings.\<close>

fun py_in :: "string \<Rightarrow> string \<Rightarrow> bool" where
  "py_in sub [] = (sub = [])"
| "py_in sub (c # cs) = (take (length sub) (c # cs) = sub \<or> py_in sub cs)"

text \<open>
  \<open>float(s)\<close> for a text \<open>s\<close> of the form \<open>\<^verbatim>\<open>\d+(\.\d+)?\<close>\<close>: the rational number the
  decimal denotes. Python rounds that number to the nearest binary64 value, which is the
  number itself for the integers below \<open>2 ^ 53\<close>.
\<close>

definition digits_value :: "string \<Rightarrow> nat" where
  "digits_value s = foldl (\<lambda>n c. 10 * n + (of_char c - 48)) 0 s"

definition py_float :: "string \<Rightarrow> rat" where
  "py_float s =
     (let whole = takeWhile (\<lambda>c. c \<noteq> CHR ''.'') s;
          frac = drop 1 (dropWhile (\<lambda>c. c \<noteq> CHR ''.'') s)
      in of_nat (digits_value whole) + of_nat (digits_value frac) / 10 ^ length frac)"

text \<open>
  The patterns of the parser, and the backtracking search of \<open>re\<close>: a pattern applied at
  a position yields its matches in the order in which \<open>re\<close> tries them (the alternatives
  of \<open>|\<close> left to right, a repetition longest first), and \<open>re.search\<close> takes the first
  match at the leftmost position that has one. A match state holds the text before the
  position (reversed), the text from the position on, and the groups captured so far.
  A repetition without upper bound is bounded by the length of the remaining text, since
  every repeated pattern below consumes a character.
\<close>

datatype regex =
    Lit string
  | Any
  | Cls "char \<Rightarrow> bool"
  | Seq regex regex
  | Alt regex regex
  | Rep regex nat "nat option"
  | Grp nat regex
  | WordB
  | Eol

record mstate =
  m_before :: string
  m_rest :: string
  m_groups :: "(nat \<times> string) list"

definition advance :: "nat \<Rightarrow> mstate \<Rightarrow> mstate" where
  "advance n s = s\<lparr>m_before := rev (take n (m_rest s)) @ m_before s, m_rest := drop n (m_rest s)\<rparr>"

fun rep :: "(mstate \<Rightarrow> mstate list) \<Rightarrow> nat \<Rightarrow> nat \<Rightarrow> mstate \<Rightarrow> mstate list" where
  "rep f lo 0 s = (if lo = 0 then [s] else [])"
| "rep f lo (Suc k) s =
     concat (map (rep f (lo - 1) k) (f s)) @ (if lo = 0 then [s] else [])"

definition at_word_boundary :: "mstate \<Rightarrow> bool" where
  "at_word_boundary s =
     ((case m_before s of [] \<Rightarrow> False | c # _ \<Rightarrow> is_word c)
        \<noteq> (case m_rest s of [] \<Rightarrow> False | c # _ \<Rightarrow> is_word c))"

primrec run :: "regex \<Rightarrow> mstate \<Rightarrow> mstate list" where
  "run (Lit w) s = (if take (length w) (m_rest s) = w then [advance (length w) s] else [])"
| "run Any s =
     (case m_rest s of [] \<Rightarrow> [] | c # _ \<Rightarrow> if c \<noteq> CHR 0x0A then [advance 1 s] else [])"
| "run (Cls p) s = (case m_rest s of [] \<Rightarrow> [] | c # _ \<Rightarrow> if p c then [advance 1 s] else [])"
| "run (Seq a b) s = concat (map (run b) (run a s))"
| "run (Alt a b) s = run a s @ run b s"
| "run (Rep r lo hi) s =
     rep (run r) lo (case hi of None \<Rightarrow> length (m_rest s) | Some h \<Rightarrow> h) s"
| "run (Grp n r) s =
     map (\<lambda>s'. s'\<lparr>m_groups :=
                    (n, take (length (m_rest s) - length (m_rest s')) (m_rest s)) # m_groups s'\<rparr>)
       (run r s)"
| "run WordB s = (if at_word_boundary s then [s] else [])"
| "run Eol s = (if m_rest s = [] \<or> m_rest s = [CHR 0x0A] then [s] else [])"

text \<open>\<open>m.group(n)\<close>: the text the group captured last, \<open>None\<close> if it took no part.\<close>

definition group :: "mstate \<Rightarrow> nat \<Rightarrow> string option" where
  "group m n = map_of (m_groups m) n"

fun search_from :: "regex \<Rightarrow> string \<Rightarrow> string \<Rightarrow> mstate option" where
  "search_from r bef [] =
     (case run r \<lparr>m_before = bef, m_rest = [], m_groups = []\<rparr> of
        [] \<Rightarrow> None | m # _ \<Rightarrow> Some m)"
| "search_from r bef (c # cs) =
     (case run r \<lparr>m_before = bef, m_rest = c # cs, m_groups = []\<rparr> of
        [] \<Rightarrow> search_from r (c # bef) cs | m # _ \<Rightarrow> Some m)"

definition re_search :: "regex \<Rightarrow> string \<Rightarrow> mstate option" where
  "re_search r s = search_from r [] s"

text \<open>
  \<open>re.sub(r, repl, s)\<close> for a pattern whose matches are not empty (both patterns given to
  \<open>re.sub\<close> are such): every match, leftmost first and not overlapping, is replaced.
\<close>

function sub_from :: "regex \<Rightarrow> string \<Rightarrow> string \<Rightarrow> string \<Rightarrow> string" where
  "sub_from r repl bef [] = []"
| "sub_from r repl bef (c # cs) =
     (case run r \<lparr>m_before = bef, m_rest = c # cs, m_groups = []\<rparr> of
        [] \<Rightarrow> c # sub_from r repl (c # bef) cs
      | m # _ \<Rightarrow>
          if length (m_rest m) < length (c # cs)
          then repl @ sub_from r repl (m_before m) (m_rest m)
          else c # sub_from r repl (c # bef) cs)"
  by pat_completeness auto
termination
  by (relation "measure (\<lambda>(r, repl, bef, s). length s)") auto

definition re_sub :: "regex \<Rightarrow> string \<Rightarrow> string \<Rightarrow> string" where
  "re_sub r repl s = sub_from r repl [] s"

fun seqs :: "regex list \<Rightarrow> regex" where
  "seqs [] = Lit []"
| "seqs [r] = r"
| "seqs (r # rs) = Seq r (seqs rs)"

fun alts :: "regex list \<Rightarrow> regex" where
  "alts [] = Lit []"
| "alts [r] = r"
| "alts (r # rs) = Alt r (alts rs)"

definition opt :: "regex \<Rightarrow> regex" where
  "opt r = Rep r 0 (Some 1)"

definition star :: "regex \<Rightarrow> regex" where
  "star r = Rep r 0 None"

definition plus :: "regex \<Rightarrow> regex" where
  "plus r = Rep r 1 None"

text \<open>\<open>\<^verbatim>\<open>\d+(?:\.\d+)?\<close>\<close>\<close>

definition number_re :: regex where
  "number_re = Seq (plus (Cls is_digit)) (opt (Seq (Lit ''.'') (plus (Cls is_digit))))"

text \<open>\<open>\<^verbatim>\<open>(?:set|adjust|change).{0,40}temp(?:erature)?\s*(?:to|at)?\s*(\d+(?:\.\d+)?)\<close>\<close>\<close>

definition temp_re :: regex where
  "temp_re =
     seqs [alts [Lit ''set'', Lit ''adjust'', Lit ''change''], Rep Any 0 (Some 40), Lit ''temp'',
           opt (Lit ''erature''), star (Cls is_space), opt (alts [Lit ''to'', Lit ''at'']),
           star (Cls is_space), Grp 1 number_re]"

text \<open>\<open>\<^verbatim>\<open>(living\s*room|master\s*bedroom|bedroom|kitchen|entrance|garage)\<close>\<close>\<close>

definition room_re :: regex where
  "room_re =
     Grp 1 (alts [seqs [Lit ''living'', star (Cls is_space), Lit ''room''],
                  seqs [Lit ''master'', star (Cls is_space), Lit ''bedroom''],
                  Lit ''bedroom'', Lit ''kitchen'', Lit ''entrance'', Lit ''garage''])"

text \<open>\<open>\<^verbatim>\<open>(increase|decrease|raise|lower|warmer|cooler).{0,20}temp(?:erature)?(?:\s+by\s+(\d+(?:\.\d+)?))?\<close>\<close>\<close>

definition rel_re :: regex where
  "rel_re =
     seqs [Grp 1 (alts [Lit ''increase'', Lit ''decrease'', Lit ''raise'', Lit ''lower'',
                        Lit ''warmer'', Lit ''cooler'']),
           Rep Any 0 (Some 20), Lit ''temp'', opt (Lit ''erature''),
           opt (seqs [plus (Cls is_space), Lit ''by'', plus (Cls is_space), Grp 2 number_re])]"

text \<open>\<open>\<^verbatim>\<open>\bunlock\b\<close>\<close>, \<open>\<^verbatim>\<open>\block\b\<close>\<close>, \<open>\<^verbatim>\<open>unlock\<close>\<close>, \<open>\<^verbatim>\<open>front\s+door\<close>\<close>, \<open>\<^verbatim>\<open>\bwarmer\b\<close>\<close>, \<open>\<^verbatim>\<open>\bcooler\b\<close>\<close>\<close>

definition word_re :: "string \<Rightarrow> regex" where
  "word_re w = seqs [WordB, Lit w, WordB]"

definition front_door_re :: regex where
  "front_door_re = seqs [Lit ''front'', plus (Cls is_space), Lit ''door'']"

text \<open>\<open>\<^verbatim>\<open>((?:turn|switch)\s+on|lights?\s+on)\<close>\<close> and the same with \<open>off\<close>\<close>

definition light_re :: "string \<Rightarrow> regex" where
  "light_re on_off =
     Grp 1 (Alt (seqs [Alt (Lit ''turn'') (Lit ''switch''), plus (Cls is_space), Lit on_off])
                (seqs [Lit ''light'', opt (Lit ''s''), plus (Cls is_space), Lit on_off]))"

text \<open>\<open>\<^verbatim>\<open>in\s+the\s+([a-z_\s]+)$|in\s+([a-z_\s]+)$\<close>\<close>\<close>

definition in_room_re :: regex where
  "in_room_re =
     Alt (seqs [Lit ''in'', plus (Cls is_space), Lit ''the'', plus (Cls is_space),
                Grp 1 (plus (Cls is_room_char)), Eol])
         (seqs [Lit ''in'', plus (Cls is_space), Grp 2 (plus (Cls is_room_char)), Eol])"

text \<open>\<open>\<^verbatim>\<open>\b(the|all|devices|in|on|of|room|rooms)\b\<close>\<close> and \<open>\<^verbatim>\<open>\s+\<close>\<close>\<close>

definition filler_re :: regex where
  "filler_re =
     seqs [WordB,
           Grp 1 (alts [Lit ''the'', Lit ''all'', Lit ''devices'', Lit ''in'', Lit ''on'',
                        Lit ''of'', Lit ''room'', Lit ''rooms'']),
           WordB]"

definition spaces_re :: regex where
  "spaces_re = plus (Cls is_space)"

section \<open>The rule-based intent parser\<close>

text \<open>An intent and its parts, as the parser builds them.\<close>

datatype ival =
    INone
  | IStr string
  | IFloat rat
  | IList "ival list"
  | IDict "(string \<times> ival) list"

text \<open>The truth value of a match object, of a string or \<open>None\<close>; \<open>x or d\<close> on these.\<close>

definition matched :: "mstate option \<Rightarrow> bool" where
  "matched m = (case m of None \<Rightarrow> False | Some _ \<Rightarrow> True)"

definition truthy :: "string option \<Rightarrow> bool" where
  "truthy x = (case x of None \<Rightarrow> False | Some s \<Rightarrow> s \<noteq> [])"

definition or_default :: "string option \<Rightarrow> string \<Rightarrow> string" where
  "or_default x d = (case x of None \<Rightarrow> d | Some s \<Rightarrow> if s = [] then d else s)"

definition opt_str :: "string option \<Rightarrow> ival" where
  "opt_str x = (case x of None \<Rightarrow> INone | Some s \<Rightarrow> IStr s)"

definition available_rooms :: "controller \<Rightarrow> string list" where
  "available_rooms c = sort (remdups (map dev_room (dict_values (devices c))))"

definition synonyms :: "(string \<times> string) list" where
  "synonyms =
     [(''living room'', ''living_room''), (''master bedroom'', ''master_bedroom''),
      (''bedroom'', ''master_bedroom'')]"

definition normalize_room :: "controller \<Rightarrow> string \<Rightarrow> string option" where
  "normalize_room c text =
     (if text = [] then None
      else
        (let t0 = py_lower (py_strip text);
             t1 = py_strip (re_sub filler_re [] t0);
             t = re_sub spaces_re '' '' t1;
             candidates =
               [t, replace_char CHR '' '' CHR ''_'' t, replace_char CHR ''_'' CHR '' '' t]
                 @ concat (map (\<lambda>(k, v). [k, v]) synonyms);
             available = available_rooms c
         in case find (\<lambda>cand. replace_char CHR '' '' CHR ''_'' cand \<in> set available) candidates of
              Some cand \<Rightarrow> Some (replace_char CHR '' '' CHR ''_'' cand)
            | None \<Rightarrow>
                find (\<lambda>room. py_in (replace_char CHR ''_'' CHR '' '' room) t
                              \<or> py_in t (replace_char CHR ''_'' CHR '' '' room))
                  available))"

text \<open>
  \<open>self._normalize_room(room_match.group(1)) if room_match else dflt\<close>, with
  \<open>room_match\<close> the search for a room name of the gazetteer.
\<close>

definition gazetteer_room :: "controller \<Rightarrow> string \<Rightarrow> string option \<Rightarrow> string option" where
  "gazetteer_room c cl dflt =
     (case re_search room_re cl of
        None \<Rightarrow> dflt
      | Some m \<Rightarrow> (case group m 1 of None \<Rightarrow> None | Some g \<Rightarrow> normalize_room c g))"

text \<open>The intent of the lock and unlock rules.\<close>

definition lock_intent :: "string \<Rightarrow> string \<Rightarrow> ival" where
  "lock_intent act cl =
     (let scope = (if matched (re_search front_door_re cl) then ''front'' else ''all'')
      in IDict [(''action'', IStr act),
                (''targets'', IList (if scope = ''front'' then [IStr ''lock_front_door''] else [])),
                (''parameters'', IDict [(''scope'', IStr scope)])])"

definition adjust_intent :: "ival \<Rightarrow> rat \<Rightarrow> ival" where
  "adjust_intent room delta =
     IDict [(''action'', IStr ''adjust_temperature''), (''targets'', IList []),
            (''parameters'', IDict [(''room'', room), (''delta'', IFloat delta)])]"

definition rule_based_intent :: "controller \<Rightarrow> string \<Rightarrow> py_error + ival" where
  "rule_based_intent c cmd =
     (let cl = py_lower cmd in
      case re_search temp_re cl of
        Some temp_match \<Rightarrow>
          (case group temp_match 1 of
             None \<Rightarrow> Inl (TypeError ''float'')
           | Some g \<Rightarrow>
               Inr (IDict [(''action'', IStr ''set_temperature''), (''targets'', IList []),
                      (''parameters'',
                         IDict [(''room'', IStr (or_default (gazetteer_room c cl None) ''living_room'')),
                                (''temperature'', IFloat (py_float g))])]))
      | None \<Rightarrow>
      (case re_search rel_re cl of
        Some rel_match \<Rightarrow>
          (let direction = group rel_match 1;
               delta_str = group rel_match 2;
               delta = (if truthy delta_str then py_float (or_default delta_str []) else 1);
               delta = (if direction \<in> set [Some ''decrease'', Some ''lower'', Some ''cooler'']
                        then - delta else delta)
           in Inr (adjust_intent (opt_str (gazetteer_room c cl (Some ''living_room''))) delta))
      | None \<Rightarrow>
      if matched (re_search (word_re ''unlock'') cl) then Inr (lock_intent ''unlock'' cl)
      else if matched (re_search (word_re ''lock'') cl) \<and> \<not> matched (re_search (Lit ''unlock'') cl)
      then Inr (lock_intent ''lock'' cl)
      else
        (let light_on = re_search (light_re ''on'') cl;
             light_off = re_search (light_re ''off'') cl
         in if (py_in ''light'' cl \<or> py_in ''lights'' cl) \<and> (matched light_on \<or> matched light_off)
            then
              (let act = (if matched light_on then ''light_on'' else ''light_off'');
                   room_text =
                     (case re_search in_room_re cl of
                        None \<Rightarrow> None
                      | Some m \<Rightarrow> if truthy (group m 1) then group m 1 else group m 2);
                   room_text =
                     (if truthy room_text then room_text
                      else (case re_search room_re cl of None \<Rightarrow> None | Some m \<Rightarrow> group m 1));
                   room = or_default (normalize_room c (or_default room_text [])) ''kitchen''
               in Inr (IDict [(''action'', IStr act), (''targets'', IList []),
                              (''parameters'', IDict [(''room'', IStr room)])]))
            else if py_in ''status'' cl \<or> py_in (''what'' @ [CHR 0x27] @ ''s'') cl
                    \<or> py_in ''what is'' cl \<or> py_in ''show'' cl
            then
              (let room = gazetteer_room c cl None
               in Inr (IDict [(''action'', IStr ''status''),
                              (''targets'', IList (if truthy room then [opt_str room] else [])),
                              (''parameters'', IDict [])]))
            else if matched (re_search (word_re ''warmer'') cl)
            then Inr (adjust_intent (opt_str (gazetteer_room c cl (Some ''living_room''))) 1)
            else if matched (re_search (word_re ''cooler'') cl)
            then Inr (adjust_intent (opt_str (gazetteer_room c cl (Some ''living_room''))) (- 1))
            else Inr (IDict [(''action'', IStr ''unknown''), (''targets'', IList []),
                             (''parameters'', IDict [])]))))"

section \<open>The agent and its workflow (\<open>SmartHomeAgent\<close>)\<close>

text \<open>
  The language model and the tool-using executor are outside the program. A call of either
  returns a value or raises; what it raises is an instance of \<open>Exception\<close>, the class
  that the handlers of \<open>execute_action\<close> catch. The executor runs tools, so it also
  returns the controller as its tool calls left it. The text of a model reply is what
  \<open>getattr(fallback, "content", None) or str(fallback)\<close> extracts from it. The
  tool set that the agent hands to the executor (\<open>build_tools\<close>) is not among the
  sources; it is part of the executor here.
\<close>

datatype exn = Exception string

record agent =
  controller_of :: controller
  llm :: "(string \<Rightarrow> exn + string) option"
  agent_executor :: "(string \<Rightarrow> controller \<Rightarrow> (exn + string option) \<times> controller) option"
  memory :: "(string \<times> string) list"
  last_intent :: "ival option"
  last_results :: "string list"
  last_response :: "string option"

text \<open>The state dict that the workflow passes from node to node; a key may be absent.\<close>

record wf_state =
  st_command :: "string option"
  st_intent :: "ival option"
  st_results :: "string list option"
  st_learned_patterns :: "(nat \<times> string list) list option"
  st_response :: "string option"

text \<open>\<open>try: body except Exception as e: handler(e)\<close>, and sequencing of steps that may raise.\<close>

definition try_except :: "exn + 'a \<Rightarrow> (exn \<Rightarrow> exn + 'a) \<Rightarrow> exn + 'a" where
  "try_except body handler = (case body of Inl e \<Rightarrow> handler e | Inr v \<Rightarrow> Inr v)"

definition and_then :: "exn + 'a \<Rightarrow> ('a \<Rightarrow> exn + 'b) \<Rightarrow> exn + 'b" where
  "and_then step next_step = (case step of Inl e \<Rightarrow> Inl e | Inr v \<Rightarrow> next_step v)"

text \<open>\<open>d.get(k, default)\<close> on an intent.\<close>

definition ival_get :: "ival \<Rightarrow> string \<Rightarrow> ival \<Rightarrow> ival" where
  "ival_get d k dflt =
     (case d of
        IDict kvs \<Rightarrow> (case map_of kvs k of None \<Rightarrow> dflt | Some v \<Rightarrow> v)
      | _ \<Rightarrow> dflt)"

text \<open>\<open>sep.join(xs)\<close>\<close>

fun py_join :: "string \<Rightarrow> string list \<Rightarrow> string" where
  "py_join sep [] = []"
| "py_join sep [x] = x"
| "py_join sep (x # xs) = x @ sep @ py_join sep xs"

definition parse_intent :: "agent \<Rightarrow> wf_state \<Rightarrow> exn + (agent \<times> wf_state)" where
  "parse_intent a st =
     (let intent =
            IDict [(''action'', IStr ''tool_agent''),
                   (''parameters'',
                    IDict [(''command'',
                            IStr (case st_command st of None \<Rightarrow> [] | Some s \<Rightarrow> s))])]
      in Inr (a\<lparr>last_intent := Some intent\<rparr>, st\<lparr>st_intent := Some intent\<rparr>))"

definition fallback_prompt :: "string \<Rightarrow> string" where
  "fallback_prompt cmd =
     ''You are a smart home assistant. Answer the user'' @ [CHR 0x27]
       @ ''s request concisely. If you cannot act on devices due to a planning error, ''
       @ ''still provide a helpful response.'' @ [CHR 0x0A, CHR 0x0A] @ ''User: '' @ cmd"

definition friendly :: string where
  "friendly = ''Sorry, I hit a parsing hiccup. Please rephrase or try again.''"

definition execute_action :: "agent \<Rightarrow> wf_state \<Rightarrow> exn + (agent \<times> wf_state)" where
  "execute_action a st =
     (let intent = (case st_intent st of None \<Rightarrow> IDict [] | Some i \<Rightarrow> i);
          act = ival_get intent ''action'' (IStr []);
          (a1, outcome) =
            (case agent_executor a of
               None \<Rightarrow> (a, Inr [''No agent available to handle the request.''])
             | Some executor \<Rightarrow>
                 if act \<noteq> IStr ''tool_agent''
                 then (a, Inr [''No agent available to handle the request.''])
                 else
                   (let cmd = (case ival_get (ival_get intent ''parameters'' (IDict []))
                                      ''command'' (IStr []) of
                                 IStr s \<Rightarrow> s | _ \<Rightarrow> []);
                        (ran, c') = executor cmd (controller_of a)
                    in (a\<lparr>controller_of := c'\<rparr>,
                        try_except
                          (case ran of
                             Inl e \<Rightarrow> Inl e
                           | Inr final \<Rightarrow>
                               Inr (case final of
                                      None \<Rightarrow> []
                                    | Some f \<Rightarrow> if f = [] then [] else [f]))
                          (\<lambda>e. try_except
                                 (case llm a of
                                    None \<Rightarrow> Inr [''I'' @ [CHR 0x27]
                                                 @ ''m unable to process this right now.'']
                                  | Some model \<Rightarrow>
                                      (case model (fallback_prompt cmd) of
                                         Inl e' \<Rightarrow> Inl e'
                                       | Inr text \<Rightarrow> Inr [text]))
                                 (\<lambda>e'. Inr [friendly])))))
      in and_then outcome
           (\<lambda>results. Inr (a1\<lparr>last_results := results\<rparr>, st\<lparr>st_results := Some results\<rparr>)))"

text \<open>The commands of the last twenty history entries, grouped by the hour they ran in.\<close>

fun time_patterns ::
  "command_history_entry list \<Rightarrow> (nat \<times> string list) list \<Rightarrow> (nat \<times> string list) list" where
  "time_patterns [] tp = tp"
| "time_patterns (h # hs) tp =
     time_patterns hs
       (AList.update (dt_hour (timestamp h))
          ((case map_of tp (dt_hour (timestamp h)) of None \<Rightarrow> [] | Some cs \<Rightarrow> cs) @ [command h])
          tp)"

definition learn_from_history :: "agent \<Rightarrow> wf_state \<Rightarrow> exn + (agent \<times> wf_state)" where
  "learn_from_history a st =
     (let history = command_history (controller_of a)
      in if 10 < length history
         then Inr (a, st\<lparr>st_learned_patterns :=
                           Some (time_patterns (drop (length history - 20) history) [])\<rparr>)
         else Inr (a, st))"

definition generate_response :: "agent \<Rightarrow> wf_state \<Rightarrow> exn + (agent \<times> wf_state)" where
  "generate_response a st =
     (let results = (case st_results st of None \<Rightarrow> [] | Some r \<Rightarrow> r);
          response =
            (if results \<noteq> [] then py_join [CHR 0x0A] results
             else ''I couldn'' @ [CHR 0x27] @ ''t understand that command. Please try again.'');
          cmd = (case st_command st of None \<Rightarrow> [] | Some s \<Rightarrow> s)
      in Inr (a\<lparr>memory := memory a @ [(''human'', cmd), (''ai'', response)],
                 last_response := Some response\<rparr>,
              st\<lparr>st_response := Some response\<rparr>))"

text \<open>
  The compiled workflow runs its four nodes in the order of its edges;
  \<open>process_command\<close> returns the response of the final state.
\<close>

definition process_command :: "agent \<Rightarrow> string \<Rightarrow> exn + (agent \<times> string)" where
  "process_command a cmd =
     (let initial_state =
            \<lparr>st_command = Some cmd, st_intent = None, st_results = None,
             st_learned_patterns = None, st_response = None\<rparr>
      in and_then (parse_intent a initial_state) (\<lambda>(a1, s1).
         and_then (execute_action a1 s1) (\<lambda>(a2, s2).
         and_then (learn_from_history a2 s2) (\<lambda>(a3, s3).
         and_then (generate_response a3 s3) (\<lambda>(a4, s4).
           Inr (a4, case st_response s4 of
                      None \<Rightarrow> ''Error processing command'' | Some r \<Rightarrow> r))))))"

section \<open>The other operations of the tool set\<close>

text \<open>
  \<open>repr(v)\<close> and \<open>str(v)\<close> of a value, which the f-strings of the tools apply to the
  entries they print. A string is quoted with the apostrophe, or with the double quote
  when it holds an apostrophe and no double quote; the quote, the backslash and the control
  characters are escaped.
\<close>

definition hex_digit :: "nat \<Rightarrow> char" where
  "hex_digit n = (if n < 10 then char_of (48 + n) else char_of (87 + n))"

definition repr_char :: "char \<Rightarrow> char \<Rightarrow> string" where
  "repr_char q c =
     (let n = (of_char c :: nat)
      in if c = q \<or> c = CHR 0x5C then [CHR 0x5C, c]
         else if n = 9 then [CHR 0x5C, CHR ''t'']
         else if n = 10 then [CHR 0x5C, CHR ''n'']
         else if n = 13 then [CHR 0x5C, CHR ''r'']
         else if n < 32 \<or> n = 127
         then [CHR 0x5C, CHR ''x'', hex_digit (n div 16), hex_digit (n mod 16)]
         else [c])"

definition repr_str :: "string \<Rightarrow> string" where
  "repr_str s =
     (let q = (if CHR 0x27 \<in> set s \<and> CHR 0x22 \<notin> set s then CHR 0x22 else CHR 0x27)
      in q # concat (map (repr_char q) s) @ [q])"

fun py_repr :: "pyval \<Rightarrow> string"
  and repr_elems :: "pyval list \<Rightarrow> string"
  and repr_items :: "(string \<times> pyval) list \<Rightarrow> string" where
  "py_repr VNone = ''None''"
| "py_repr (VBool b) = (if b then ''True'' else ''False'')"
| "py_repr (VInt i) = int_str i"
| "py_repr (VStr s) = repr_str s"
| "py_repr (VList xs) = ''['' @ repr_elems xs @ '']''"
| "py_repr (VDict kvs) = ''{'' @ repr_items kvs @ ''}''"
| "repr_elems [] = []"
| "repr_elems [x] = py_repr x"
| "repr_elems (x # y # ys) = py_repr x @ '', '' @ repr_elems (y # ys)"
| "repr_items [] = []"
| "repr_items [(k, v)] = repr_str k @ '': '' @ py_repr v"
| "repr_items ((k, v) # kv # kvs) = repr_str k @ '': '' @ py_repr v @ '', '' @ repr_items (kv # kvs)"








subsection \<open>The tools over the controller: \<open>control_device\<close>, \<open>get_room_status\<close>\<close>




subsection \<open>The tools over the device file\<close>













section \<open>Concrete registries, device files and agents for evaluation\<close>

definition demo_now :: "nat \<Rightarrow> datetime" where
  "demo_now n = \<lparr>dt_iso = ''2024-01-01T08:00:0'' @ nat_str n, dt_hour = 8\<rparr>"

definition demo_thermostat :: device where
  "demo_thermostat =
     \<lparr>dev_id = ''thermostat_living'', dev_name = ''Living Room Thermostat'',
      dev_type = ''thermostat'', dev_room = ''living_room'',
      dev_state = [(''current_temperature'', VInt 21), (''target_temperature'', VInt 20),
                   (''status'', VStr ''off'')],
      last_updated = ''never''\<rparr>"

definition demo_light :: device where
  "demo_light =
     \<lparr>dev_id = ''light_kitchen'', dev_name = ''Kitchen Light'',
      dev_type = ''light'', dev_room = ''kitchen'',
      dev_state = [(''power'', VStr ''off''), (''status'', VStr ''off'')],
      last_updated = ''never''\<rparr>"

definition demo_controller :: controller where
  "demo_controller =
     \<lparr>devices = [(''thermostat_living'', demo_thermostat), (''light_kitchen'', demo_light)],
      command_history = [], ticks = 0\<rparr>"

text \<open>The demo registry with a light in the master bedroom added.\<close>

definition demo_home :: controller where
  "demo_home =
     demo_controller\<lparr>devices :=
       devices demo_controller
         @ [(''light_master'',
             demo_light\<lparr>dev_id := ''light_master'', dev_room := ''master_bedroom''\<rparr>)]\<rparr>"

text \<open>A device file with a light, an AC and a door lock.\<close>

definition demo_file :: data_file where
  "demo_file =
     \<lparr>df_gadgets =
        [\<lparr>gid = ''light_living'',
          gfields = [(''type'', VStr ''light''), (''room'', VStr ''living''), (''state'', VInt 0),
                     (''color_modes'', VList [VStr ''off'', VStr ''warm_white'',
                        VStr ''bright_yellow'', VStr ''cool_blue''])]\<rparr>,
         \<lparr>gid = ''ac_living'',
          gfields = [(''type'', VStr ''ac''), (''room'', VStr ''living''), (''on'', VBool True),
                     (''temperature'', VInt 20), (''range'', VList [VInt 18, VInt 28])]\<rparr>,
         \<lparr>gid = ''door_bedroom'',
          gfields = [(''type'', VStr ''door_lock''), (''room'', VStr ''bedroom''),
                     (''locked'', VBool True)]\<rparr>],
      df_rooms =
        [\<lparr>room_name = ''living'', room_fields = [(''area'', VList [VInt 100, VInt 100, VInt 700, VInt 300])]\<rparr>,
         \<lparr>room_name = ''bedroom'', room_fields = [(''area'', VList [VInt 100, VInt 400, VInt 700, VInt 150])]\<rparr>]\<rparr>"

definition demo_tools :: tools_state where
  "demo_tools = load_devices \<lparr>disk = demo_file, data = demo_file, gadgets = [], rooms = []\<rparr>"

text \<open>An agent whose executor and model both raise, and one whose model answers.\<close>

definition demo_agent :: "(string \<Rightarrow> exn + string) \<Rightarrow> agent" where
  "demo_agent model =
     \<lparr>controller_of = demo_controller,
      llm = Some model,
      agent_executor = Some (\<lambda>cmd c. (Inl (Exception ''Could not parse LLM output''), c)),
      memory = [], last_intent = None, last_results = [], last_response = None\<rparr>"






section \<open>Properties of the registry\<close>

lemma dict_get_set: "dict_get (dict_set d k v) k' = (if k' = k then Some v else dict_get d k')"
  by (simp add: dict_get_def dict_set_def update_conv')

lemma map_of_dict_update: "map_of (dict_update d kvs) = map_of d ++ map_of (rev kvs)"
proof (induction kvs arbitrary: d)
  case Nil
  show ?case by simp
next
  case (Cons kv kvs)
  obtain k' v' where kv: "kv = (k', v')" by (cases kv)
  show ?case
    unfolding kv dict_update.simps Cons.IH
    by (rule ext) (simp add: dict_set_def update_conv' map_add_def split: option.splits)
qed

lemma dict_get_update:
  "dict_get (dict_update d kvs) k =
     (case dict_get (rev kvs) k of Some v \<Rightarrow> Some v | None \<Rightarrow> dict_get d k)"
  by (simp add: dict_get_def map_of_dict_update map_add_def split: option.splits)

lemma map_of_rev_distinct: "distinct (map fst xs) \<Longrightarrow> map_of (rev xs) = map_of xs"
  by (metis distinct_rev map_of_inject_set rev_map set_rev)

lemma dict_get_keyed:
  assumes "keyed_by_id ds" and "th \<in> set (dict_values ds)"
  shows "dict_get ds (dev_id th) = Some th"
proof -
  from assms(2) obtain k where k: "(k, th) \<in> set ds"
    by (auto simp: dict_values_def)
  with assms(1) have "dev_id th = k"
    by (auto simp: keyed_by_id_def list_all_iff)
  with k assms(1) show ?thesis by (simp add: dict_get_def keyed_by_id_def)
qed

text \<open>
  Claim C9. For a device id present in the registry, \<open>update_device_state\<close> returns
  true, overwrites exactly the state fields named in the partial state (every other state
  field keeps its value), stamps \<open>last_updated\<close> with the clock reading, and leaves
  the other fields of the device, every other device and the history as they were. For an
  id that is not in the registry it returns false and the controller is unchanged. No branch
  of the function raises.
\<close>

theorem update_device_state_merge:
  assumes "distinct (map fst partial_state)"
  shows "case dict_get (devices c) device_id of
           None \<Rightarrow> update_device_state now c device_id partial_state = (c, False)
         | Some d \<Rightarrow>
            (let (c', ok) = update_device_state now c device_id partial_state in
              ok \<and>
              (\<exists>d'. dict_get (devices c') device_id = Some d' \<and>
                 (\<forall>k. dict_get (dev_state d') k =
                    (case dict_get partial_state k of Some v \<Rightarrow> Some v
                     | None \<Rightarrow> dict_get (dev_state d) k)) \<and>
                 last_updated d' = dt_iso (now (ticks c)) \<and>
                 dev_id d' = dev_id d \<and> dev_name d' = dev_name d \<and>
                 dev_type d' = dev_type d \<and> dev_room d' = dev_room d) \<and>
              (\<forall>i. i \<noteq> device_id \<longrightarrow> dict_get (devices c') i = dict_get (devices c) i) \<and>
              map fst (devices c') = map fst (devices c) \<and>
              command_history c' = command_history c)"
proof (cases "dict_get (devices c) device_id")
  case None
  then show ?thesis by (simp add: update_device_state_def)
next
  case (Some d)
  have rv: "dict_get (rev partial_state) = dict_get partial_state"
    using map_of_rev_distinct [OF assms] by (simp add: dict_get_def fun_eq_iff)
  have keys: "map fst (dict_set (devices c) device_id x) = map fst (devices c)" for x
  proof -
    from Some have "device_id \<in> fst ` set (devices c)"
      by (metis dict_get_def map_of_eq_None_iff option.distinct(1))
    then show ?thesis by (simp add: dict_set_def update_keys)
  qed
  show ?thesis
    using Some by (simp add: update_device_state_def dict_get_set dict_get_update rv keys)
qed

theorem update_device_state_merge_witness:
  "distinct (map fst [(''target_temperature'', VInt 22)]) \<and>
   (\<exists>c' d'. update_device_state demo_now demo_controller ''thermostat_living''
        [(''target_temperature'', VInt 22)] = (c', True) \<and>
      dict_get (devices c') ''thermostat_living'' = Some d' \<and>
      dict_get (dev_state d') ''target_temperature'' = Some (VInt 22) \<and>
      dict_get (dev_state d') ''current_temperature'' = Some (VInt 21) \<and>
      dict_get (devices c') ''light_kitchen'' = Some demo_light) \<and>
   update_device_state demo_now demo_controller ''fan_attic''
        [(''target_temperature'', VInt 22)] = (demo_controller, False)"
  using update_device_state_merge [where partial_state = "[(''target_temperature'', VInt 22)]" and c = demo_controller and now = demo_now and device_id =
          "''thermostat_living''"]
        update_device_state_merge [where partial_state = "[(''target_temperature'', VInt 22)]" and c = demo_controller and now = demo_now and device_id =
          "''fan_attic''"]
  by (auto simp: demo_controller_def demo_thermostat_def dict_get_def split: prod.splits)

text \<open>
  Claim C7. On a registry keyed by device id with a thermostat in the room,
  \<open>set_thermostat room t\<close> stores \<open>t\<close> as the \<open>target_temperature\<close> of the
  first thermostat of the room, sets its \<open>status\<close> to on, and returns the success
  message, which contains the numeral of \<open>t\<close>. With no thermostat in the room it
  returns the message saying so and the controller is unchanged. No branch raises.
\<close>

theorem set_thermostat_spec:
  assumes keyed: "keyed_by_id (devices c)"
  shows "case filter (\<lambda>d. dev_type d = ''thermostat'') (get_devices_by_room c room) of
           [] \<Rightarrow> set_thermostat now c room t = (c, ''No thermostat found in '' @ room)
         | th # _ \<Rightarrow>
             (let (c', msg) = set_thermostat now c room t in
                msg = ''Set thermostat in '' @ room @ '' to '' @ int_str t @ degree_C \<and>
                (\<exists>d'. dict_get (devices c') (dev_id th) = Some d' \<and>
                   dict_get (dev_state d') ''target_temperature'' = Some (VInt t) \<and>
                   dict_get (dev_state d') ''status'' = Some (VStr ''on'') \<and>
                   dev_id d' = dev_id th \<and> dev_type d' = dev_type th \<and>
                   dev_room d' = dev_room th))"
proof (cases "filter (\<lambda>d. dev_type d = ''thermostat'') (get_devices_by_room c room)")
  case Nil
  then show ?thesis by (simp add: set_thermostat_def)
next
  case (Cons th rest)
  then have "th \<in> set (filter (\<lambda>d. dev_type d = ''thermostat'') (get_devices_by_room c room))"
    by simp
  then have "th \<in> set (dict_values (devices c))"
    by (simp add: get_devices_by_room_def)
  then have th: "dict_get (devices c) (dev_id th) = Some th"
    using keyed dict_get_keyed by blast
  show ?thesis
    using Cons th
    by (simp add: set_thermostat_def update_device_state_def log_command_def dict_get_set
          dict_get_update dict_get_def [of "[_, _]"])
qed

theorem set_thermostat_spec_witness:
  "keyed_by_id (devices demo_controller) \<and>
   (\<exists>c' d'. set_thermostat demo_now demo_controller ''living_room'' 22 =
        (c', ''Set thermostat in living_room to 22'' @ degree_C) \<and>
      dict_get (devices c') ''thermostat_living'' = Some d' \<and>
      dict_get (dev_state d') ''target_temperature'' = Some (VInt 22) \<and>
      dict_get (dev_state d') ''status'' = Some (VStr ''on'')) \<and>
   set_thermostat demo_now demo_controller ''kitchen'' 22 =
     (demo_controller, ''No thermostat found in kitchen'')"
proof -
  have k: "keyed_by_id (devices demo_controller)"
    by (simp add: keyed_by_id_def demo_controller_def demo_thermostat_def demo_light_def)
  have f1: "filter (\<lambda>d. dev_type d = ''thermostat'') (get_devices_by_room demo_controller ''living_room'')
            = [demo_thermostat]"
    by code_simp
  have f2: "filter (\<lambda>d. dev_type d = ''thermostat'') (get_devices_by_room demo_controller ''kitchen'')
            = []"
    by code_simp
  have s: "int_str 22 = ''22''" by code_simp
  show ?thesis
    using k set_thermostat_spec [OF k, where room = "''living_room''" and now = demo_now and t = 22]
      set_thermostat_spec [OF k, where room = "''kitchen''" and now = demo_now and t = 22]
    by (auto simp: f1 f2 s demo_thermostat_def split: prod.splits)
qed

section \<open>Properties of the device file and its tools\<close>

lemma update_absent: "k \<notin> fst ` set al \<Longrightarrow> AList.update k v al = al @ [(k, v)]"
  by (induction al) auto

lemma dict_from_values_aux:
  "keyed_by key (acc @ d) \<Longrightarrow> foldl (\<lambda>d x. dict_set d (key x) x) acc (map snd d) = acc @ d"
proof (induction d arbitrary: acc)
  case Nil
  show ?case by simp
next
  case (Cons p d)
  obtain k x where p: "p = (k, x)" by (cases p)
  from Cons.prems have kx: "key x = k" and notin: "k \<notin> fst ` set acc"
    by (auto simp: keyed_by_def p)
  have step: "dict_set acc (key x) x = acc @ [(k, x)]"
    using notin by (simp add: dict_set_def kx update_absent)
  from Cons.prems have "keyed_by key ((acc @ [(k, x)]) @ d)" by (simp add: p)
  from Cons.IH [OF this] show ?case by (simp add: p step)
qed

lemma dict_from_values: "keyed_by key d \<Longrightarrow> dict_from key (dict_values d) = d"
  using dict_from_values_aux [of key "[]" d] by (simp add: dict_from_def dict_values_def)

lemma keyed_by_set:
  assumes "keyed_by key d"
  shows "keyed_by key (dict_set d (key x) x)"
proof -
  have "set (AList.update k v al) \<subseteq> insert (k, v) (set al)" for k and v :: 'a and al
    by (induction al) auto
  then have "\<forall>(k, y) \<in> set (dict_set d (key x) x). key y = k"
    using assms by (fastforce simp: keyed_by_def dict_set_def list_all_iff)
  then show ?thesis
    using assms by (simp add: keyed_by_def list_all_iff dict_set_def distinct_update)
qed

lemma keyed_by_foldl:
  "keyed_by key acc \<Longrightarrow> keyed_by key (foldl (\<lambda>d x. dict_set d (key x) x) acc xs)"
  by (induction xs arbitrary: acc) (simp_all add: keyed_by_set)

lemma keyed_by_dict_from: "keyed_by key (dict_from key xs)"
  unfolding dict_from_def by (rule keyed_by_foldl) (simp add: keyed_by_def)

lemma dict_update_fixed:
  "list_all (\<lambda>(k, v). dict_get d k = Some v) kvs \<Longrightarrow> dict_update d kvs = d"
  by (induction kvs) (auto simp: dict_set_def dict_get_def update_triv)

lemma dict_update_idem:
  assumes "distinct (map fst kvs)"
  shows "dict_update (dict_update d kvs) kvs = dict_update d kvs"
proof (rule dict_update_fixed)
  have "dict_get (dict_update d kvs) k = Some v" if "(k, v) \<in> set kvs" for k v
    using that assms by (simp add: dict_get_def map_of_dict_update map_of_rev_distinct map_add_def)
  then show "list_all (\<lambda>(k, v). dict_get (dict_update d kvs) k = Some v) kvs"
    by (auto simp: list_all_iff)
qed

lemma dict_get_apply_other:
  "k \<notin> fst ` set actions \<Longrightarrow> dict_get (apply_actions actions gs) k = dict_get gs k"
  by (induction actions arbitrary: gs) (auto simp: dict_get_set split: option.splits)

lemma keyed_by_apply_actions:
  "keyed_by gid gs \<Longrightarrow> keyed_by gid (apply_actions actions gs)"
proof (induction actions arbitrary: gs)
  case Nil
  then show ?case by simp
next
  case (Cons a actions)
  obtain i ch where a: "a = (i, ch)" by (cases a)
  show ?case
  proof (cases "dict_get gs i")
    case None
    with Cons show ?thesis by (simp add: a)
  next
    case (Some g)
    have "(i, g) \<in> set gs" using Some by (simp add: dict_get_def map_of_SomeD)
    with Cons.prems have gi: "gid g = i" by (auto simp: keyed_by_def list_all_iff)
    have "keyed_by gid (dict_set gs (gid (g\<lparr>gfields := dict_update (gfields g) ch\<rparr>))
            (g\<lparr>gfields := dict_update (gfields g) ch\<rparr>))"
      using Cons.prems by (rule keyed_by_set)
    then have "keyed_by gid (dict_set gs i (g\<lparr>gfields := dict_update (gfields g) ch\<rparr>))"
      by (simp add: gi)
    from Cons.IH [OF this] show ?thesis by (simp add: a Some)
  qed
qed

lemma apply_actions_settled: "settled actions gs \<Longrightarrow> apply_actions actions gs = gs"
proof (induction actions)
  case Nil
  show ?case by simp
next
  case (Cons a actions)
  obtain i ch where a: "a = (i, ch)" by (cases a)
  from Cons.prems have rest: "settled actions gs" by (simp add: settled_def)
  show ?case
  proof (cases "dict_get gs i")
    case None
    with Cons.IH [OF rest] show ?thesis by (simp add: a)
  next
    case (Some g)
    with Cons.prems have "dict_update (gfields g) ch = gfields g"
      by (simp add: settled_def a)
    then have "dict_set gs i (g\<lparr>gfields := dict_update (gfields g) ch\<rparr>) = gs"
      using Some by (simp add: dict_set_def dict_get_def update_triv)
    with Cons.IH [OF rest] show ?thesis by (simp add: a Some)
  qed
qed

lemma settled_apply_actions:
  "patches_ok actions \<Longrightarrow> settled actions (apply_actions actions gs)"
proof (induction actions arbitrary: gs)
  case Nil
  show ?case by (simp add: settled_def)
next
  case (Cons a actions)
  obtain i ch where a: "a = (i, ch)" by (cases a)
  from Cons.prems have ok: "patches_ok actions" and fresh: "i \<notin> fst ` set actions"
    and dch: "distinct (map fst ch)"
    by (auto simp: patches_ok_def a)
  define gs1 where "gs1 = (case dict_get gs i of None \<Rightarrow> gs
     | Some g \<Rightarrow> dict_set gs i (g\<lparr>gfields := dict_update (gfields g) ch\<rparr>))"
  have ap: "apply_actions (a # actions) gs = apply_actions actions gs1"
    by (simp add: a gs1_def)
  have hd: "case dict_get gs1 i of None \<Rightarrow> True
            | Some g \<Rightarrow> dict_update (gfields g) ch = gfields g"
    by (cases "dict_get gs i") (simp_all add: gs1_def dict_get_set dict_update_idem [OF dch])
  have "dict_get (apply_actions actions gs1) i = dict_get gs1 i"
    using fresh by (rule dict_get_apply_other)
  with hd Cons.IH [OF ok, of gs1] show ?case
    unfolding ap by (simp add: settled_def a)
qed

lemma apply_actions_idem:
  "patches_ok actions \<Longrightarrow>
   apply_actions actions (apply_actions actions gs) = apply_actions actions gs"
  by (rule apply_actions_settled) (rule settled_apply_actions)

lemma scenes_ok: "list_all (\<lambda>(name, description, actions). patches_ok actions) scenes"
  by (simp add: scenes_def patches_ok_def)

lemma load_devices_idem: "load_devices (load_devices st) = load_devices st"
  by (simp add: load_devices_def)

text \<open>
  Claim C8. \<open>create_scene\<close> is idempotent for every scene name, known or unknown and
  in any letter case: applying the scene again to the state the first application left
  gives the same state (file, loaded data, gadgets, rooms) and the same message.
\<close>

theorem create_scene_idempotent:
  "create_scene (fst (create_scene st scene_name)) scene_name = create_scene st scene_name"
proof (cases "map_of scenes (py_lower scene_name)")
  case None
  then show ?thesis by (simp add: create_scene_def load_devices_idem Let_def)
next
  case (Some sc)
  obtain description actions where sc: "sc = (description, actions)" by (cases sc)
  from Some have "(py_lower scene_name, description, actions) \<in> set scenes"
    by (simp add: sc map_of_SomeD)
  with scenes_ok have ok: "patches_ok actions"
    by (auto simp: list_all_iff)
  define G where "G = apply_actions actions (gadgets (load_devices st))"
  define st2 where "st2 = save_devices ((load_devices st)\<lparr>gadgets := G\<rparr>)"
  have first: "create_scene st scene_name = (st2, ''Activated scene: '' @ description)"
    using Some by (simp add: create_scene_def sc st2_def G_def Let_def)
  have "keyed_by gid (gadgets (load_devices st))"
    by (simp add: load_devices_def keyed_by_dict_from)
  then have kG: "keyed_by gid G"
    unfolding G_def by (rule keyed_by_apply_actions)
  have reload: "load_devices st2 = st2"
    by (simp add: st2_def load_devices_def save_devices_def Let_def dict_from_values [OF kG])
  have again: "apply_actions actions (gadgets st2) = G"
    by (simp add: st2_def save_devices_def Let_def G_def apply_actions_idem [OF ok])
  have g2: "gadgets st2 = G"
    by (simp add: st2_def save_devices_def Let_def)
  have "save_devices (st2\<lparr>gadgets := G\<rparr>) = st2"
    by (simp add: st2_def save_devices_def Let_def)
  then have second: "create_scene st2 scene_name = (st2, ''Activated scene: '' @ description)"
    using Some by (simp add: create_scene_def sc reload again Let_def)
  show ?thesis by (simp add: first second)
qed

section \<open>The door lock and the AC\<close>

lemma get_field_set_field:
  "dict_get (gadgets st) device_id = Some device \<Longrightarrow>
   get_field (set_field st device_id k v) device_id k' =
     (if k' = k then Some v else get_field st device_id k')"
  by (simp add: get_field_def set_field_def dict_get_set)

lemma save_devices_fields:
  "gadgets (save_devices st) = gadgets st"
  "df_gadgets (disk (save_devices st)) = dict_values (gadgets st)"
  "get_field (save_devices st) device_id k = get_field st device_id k"
  by (simp_all add: save_devices_def Let_def get_field_def)

text \<open>
  Claim C10. For a door lock present in the device file, \<open>control_door_lock\<close> with any
  action string succeeds: it stores \<open>locked = True\<close> exactly when the lower-cased action
  is \<open>lock\<close>, and \<open>locked = False\<close> for every other string, writes the gadgets to the
  file and reports the state it stored. No action string is rejected.
\<close>

theorem control_door_lock_locked_iff:
  assumes "dict_get (gadgets (load_devices st)) device_id = Some device"
      and "dict_get (gfields device) ''type'' = Some (VStr ''door_lock'')"
  shows "\<exists>st'. control_door_lock st device_id act =
            Inr (st', device_id @ '' is now ''
                   @ (if py_lower act = ''lock'' then ''locked'' else ''unlocked'')) \<and>
          get_field st' device_id ''locked'' = Some (VBool (py_lower act = ''lock'')) \<and>
          df_gadgets (disk st') = dict_values (gadgets st')"
  using assms
  by (simp add: control_door_lock_def Let_def save_devices_fields get_field_set_field)

theorem control_door_lock_locked_iff_witness:
  "dict_get (gadgets (load_devices demo_tools)) ''door_bedroom''
     = Some \<lparr>gid = ''door_bedroom'',
             gfields = [(''type'', VStr ''door_lock''), (''room'', VStr ''bedroom''),
                        (''locked'', VBool True)]\<rparr> \<and>
   (\<exists>st'. control_door_lock demo_tools ''door_bedroom'' ''LOCK''
             = Inr (st', ''door_bedroom is now locked'') \<and>
          get_field st' ''door_bedroom'' ''locked'' = Some (VBool True)) \<and>
   (\<exists>st'. control_door_lock demo_tools ''door_bedroom'' ''toggle''
             = Inr (st', ''door_bedroom is now unlocked'') \<and>
          get_field st' ''door_bedroom'' ''locked'' = Some (VBool False))"
proof -
  have g: "dict_get (gadgets (load_devices demo_tools)) ''door_bedroom''
     = Some \<lparr>gid = ''door_bedroom'',
             gfields = [(''type'', VStr ''door_lock''), (''room'', VStr ''bedroom''),
                        (''locked'', VBool True)]\<rparr>"
    by code_simp
  have t: "dict_get (gfields \<lparr>gid = ''door_bedroom'',
             gfields = [(''type'', VStr ''door_lock''), (''room'', VStr ''bedroom''),
                        (''locked'', VBool True)]\<rparr>) ''type'' = Some (VStr ''door_lock'')"
    by code_simp
  have l1: "py_lower ''LOCK'' = ''lock''" by code_simp
  have l2: "py_lower ''toggle'' \<noteq> ''lock''" by code_simp
  show ?thesis
    using g control_door_lock_locked_iff [OF g t, where act = "''LOCK''"]
      control_door_lock_locked_iff [OF g t, where act = "''toggle''"]
    by (auto simp: l1 l2)
qed

text \<open>
  Claim C2. \<open>control_ac\<close> assigns \<open>device["on"]\<close> before it checks the temperature. With
  the AC of the demo file on (range 18 to 28, temperature 20), the call
  \<open>control_ac("ac_living", "off", 35)\<close> returns the range message and leaves the
  temperature and the file as they were, but the loaded device is now off.
\<close>

theorem control_ac_out_of_range_sets_on:
  "get_field demo_tools ''ac_living'' ''on'' = Some (VBool True) \<and>
   (case control_ac demo_tools ''ac_living'' ''off'' (Some 35) of
      Inl e \<Rightarrow> False
    | Inr (st', msg) \<Rightarrow>
        msg = ''Temperature must be between 18'' @ degree_C @ '' and 28'' @ degree_C \<and>
        get_field st' ''ac_living'' ''on'' = Some (VBool False) \<and>
        get_field st' ''ac_living'' ''temperature'' = Some (VInt 20) \<and>
        disk st' = disk demo_tools)"
  by code_simp

text \<open>
  The same for every AC whose range is a pair of integers and every temperature outside
  it: the message is returned, the file and the temperature are untouched, and the
  \<open>on\<close> entry of the loaded device is the requested power.
\<close>

lemma control_ac_out_of_range:
  assumes "dict_get (gadgets (load_devices st)) device_id = Some device"
      and "dict_get (gfields device) ''type'' = Some (VStr ''ac'')"
      and "dict_get (gfields device) ''range'' = Some (VList [VInt lo, VInt hi])"
      and "t < lo \<or> hi < t"
  shows "\<exists>st'. control_ac st device_id power_arg (Some t) =
            Inr (st', ''Temperature must be between '' @ int_str lo @ degree_C
                        @ '' and '' @ int_str hi @ degree_C) \<and>
          disk st' = disk st \<and>
          get_field st' device_id ''temperature'' = dict_get (gfields device) ''temperature'' \<and>
          get_field st' device_id ''on'' = Some (VBool (py_lower power_arg = ''on''))"
proof -
  have r: "get_field (set_field (load_devices st) device_id ''on'' v) device_id ''range''
             = Some (VList [VInt lo, VInt hi])" for v
    using assms(1,3) by (simp add: get_field_set_field) (simp add: get_field_def)
  have tmp: "get_field (set_field (load_devices st) device_id ''on'' v) device_id ''temperature''
             = dict_get (gfields device) ''temperature''" for v
    using assms(1) by (simp add: get_field_set_field) (simp add: get_field_def)
  have d: "disk (set_field (load_devices st) device_id ''on'' v) = disk st" for v
    using assms(1) by (simp add: set_field_def load_devices_def)
  from assms(4) have out: "\<not> (lo \<le> t \<and> t \<le> hi)" by auto
  show ?thesis
    using assms(1,2) out
    by (simp add: control_ac_def Let_def r tmp d get_field_set_field)
qed

section \<open>The command history and the validation of the tool set\<close>


subsection \<open>What the tools over the controller update and log\<close>







subsection \<open>What the tools over the device file check\<close>




















section \<open>Properties of the rule-based parser\<close>

text \<open>
  Claim C4. \<open>_normalize_room\<close> appends every synonym and its target to the candidates,
  whatever the text is, so on a registry with the rooms kitchen, living_room and
  master_bedroom the text \<open>bedroom\<close> (and a text that names no room, as \<open>attic\<close>) is
  resolved to \<open>living_room\<close>, the first synonym target in the registry. The three
  spellings of the living room are resolved to \<open>living_room\<close>.
\<close>

theorem normalize_room_bedroom_is_living_room:
  "available_rooms demo_home = [''kitchen'', ''living_room'', ''master_bedroom''] \<and>
   normalize_room demo_home ''bedroom'' = Some ''living_room'' \<and>
   normalize_room demo_home ''attic'' = Some ''living_room'' \<and>
   normalize_room demo_home ''Living Room'' = Some ''living_room'' \<and>
   normalize_room demo_home ''living_room'' = Some ''living_room'' \<and>
   normalize_room demo_home ''in the living room'' = Some ''living_room''"
  by code_simp

text \<open>
  The same on every registry that has the room \<open>living_room\<close> and no room called
  \<open>bedroom\<close>: the synonym \<open>bedroom\<close> is resolved to \<open>living_room\<close>.
\<close>

lemma normalize_room_bedroom:
  assumes "''living_room'' \<in> set (available_rooms c)" and "''bedroom'' \<notin> set (available_rooms c)"
  shows "normalize_room c ''bedroom'' = Some ''living_room''"
proof -
  have t: "re_sub spaces_re '' '' (py_strip (re_sub filler_re [] (py_lower (py_strip ''bedroom''))))
             = ''bedroom''"
    by code_simp
  show ?thesis
    using assms
    by (simp add: normalize_room_def Let_def t synonyms_def replace_char_def)
qed

lemma search_cases:
  "(case re_search r s of None \<Rightarrow> False | Some m \<Rightarrow> P m) \<Longrightarrow> \<exists>m. re_search r s = Some m \<and> P m"
  by (cases "re_search r s") auto

lemma normalize_living_room:
  assumes "''living_room'' \<in> set (available_rooms c)" and "''living'' \<notin> set (available_rooms c)"
  shows "normalize_room c ''living room'' = Some ''living_room''"
proof -
  have t: "re_sub spaces_re '' '' (py_strip (re_sub filler_re [] (py_lower (py_strip ''living room''))))
             = ''living''"
    by code_simp
  show ?thesis
    using assms
    by (simp add: normalize_room_def Let_def t synonyms_def replace_char_def)
qed

lemma set_temperature_example:
  assumes "''living_room'' \<in> set (available_rooms c)" and "''living'' \<notin> set (available_rooms c)"
  shows "rule_based_intent c ''set living room temperature to 25'' =
           Inr (IDict [(''action'', IStr ''set_temperature''), (''targets'', IList []),
                  (''parameters'',
                     IDict [(''room'', IStr ''living_room''), (''temperature'', IFloat 25)])])"
proof -
  have l: "py_lower ''set living room temperature to 25'' = ''set living room temperature to 25''"
    by code_simp
  have "case re_search temp_re ''set living room temperature to 25'' of
          None \<Rightarrow> False | Some m \<Rightarrow> group m 1 = Some ''25''"
    by code_simp
  then obtain m where m: "re_search temp_re ''set living room temperature to 25'' = Some m"
      "group m 1 = Some ''25''"
    using search_cases by blast
  have "case re_search room_re ''set living room temperature to 25'' of
          None \<Rightarrow> False | Some m \<Rightarrow> group m 1 = Some ''living room''"
    by code_simp
  then obtain rm where rm: "re_search room_re ''set living room temperature to 25'' = Some rm"
      "group rm 1 = Some ''living room''"
    using search_cases by blast
  have f: "py_float ''25'' = 25" by code_simp
  show ?thesis
    by (simp add: rule_based_intent_def Let_def l m rm f gazetteer_room_def or_default_def
          normalize_living_room [OF assms] del: One_nat_def)
qed

lemma increase_temperature_example:
  assumes "''living_room'' \<in> set (available_rooms c)" and "''living'' \<notin> set (available_rooms c)"
  shows "rule_based_intent c ''increase the living room temperature by 2'' =
           Inr (IDict [(''action'', IStr ''adjust_temperature''), (''targets'', IList []),
                  (''parameters'',
                     IDict [(''room'', IStr ''living_room''), (''delta'', IFloat 2)])])"
proof -
  have l: "py_lower ''increase the living room temperature by 2''
             = ''increase the living room temperature by 2''"
    by code_simp
  have t: "re_search temp_re ''increase the living room temperature by 2'' = None"
    by code_simp
  have "case re_search rel_re ''increase the living room temperature by 2'' of
          None \<Rightarrow> False | Some m \<Rightarrow> group m 1 = Some ''increase'' \<and> group m 2 = Some ''2''"
    by code_simp
  then obtain m where m: "re_search rel_re ''increase the living room temperature by 2'' = Some m"
      "group m 1 = Some ''increase''" "group m 2 = Some ''2''"
    using search_cases [where r = rel_re and P = "\<lambda>m. group m 1 = Some ''increase'' \<and> group m 2 = Some ''2''"]
    by blast
  have "case re_search room_re ''increase the living room temperature by 2'' of
          None \<Rightarrow> False | Some m \<Rightarrow> group m 1 = Some ''living room''"
    by code_simp
  then obtain rm where rm: "re_search room_re ''increase the living room temperature by 2'' = Some rm"
      "group rm 1 = Some ''living room''"
    using search_cases by blast
  have f: "py_float ''2'' = 2" by code_simp
  show ?thesis
    by (simp add: rule_based_intent_def Let_def l t m rm f gazetteer_room_def or_default_def
          truthy_def adjust_intent_def opt_str_def normalize_living_room [OF assms]
          del: One_nat_def)
qed

text \<open>
  Claim C5. A command in which the word \<open>unlock\<close> occurs, and which neither temperature
  rule matches, is resolved to the action \<open>unlock\<close>, whether or not the word \<open>lock\<close>
  occurs in it as well: the unlock rule is tried first, and the lock rule asks for the
  absence of \<open>unlock\<close>.
\<close>

theorem unlock_rule_precedes_lock:
  assumes "re_search temp_re (py_lower cmd) = None"
      and "re_search rel_re (py_lower cmd) = None"
      and "matched (re_search (word_re ''unlock'') (py_lower cmd))"
  shows "\<exists>targets scope.
           rule_based_intent c cmd =
             Inr (IDict [(''action'', IStr ''unlock''), (''targets'', IList targets),
                         (''parameters'', IDict [(''scope'', IStr scope)])])"
  using assms by (simp add: rule_based_intent_def Let_def lock_intent_def)

theorem unlock_rule_precedes_lock_witness:
  "re_search temp_re (py_lower (''don'' @ [CHR 0x27] @ ''t forget to lock after you unlock'')) = None \<and>
   re_search rel_re (py_lower (''don'' @ [CHR 0x27] @ ''t forget to lock after you unlock'')) = None \<and>
   matched (re_search (word_re ''unlock'')
              (py_lower (''don'' @ [CHR 0x27] @ ''t forget to lock after you unlock''))) \<and>
   matched (re_search (word_re ''lock'')
              (py_lower (''don'' @ [CHR 0x27] @ ''t forget to lock after you unlock''))) \<and>
   (\<exists>targets scope.
      rule_based_intent demo_home (''don'' @ [CHR 0x27] @ ''t forget to lock after you unlock'') =
        Inr (IDict [(''action'', IStr ''unlock''), (''targets'', IList targets),
                    (''parameters'', IDict [(''scope'', IStr scope)])]))"
proof -
  have h1: "re_search temp_re (py_lower (''don'' @ [CHR 0x27] @ ''t forget to lock after you unlock'')) = None"
    by code_simp
  have h2: "re_search rel_re (py_lower (''don'' @ [CHR 0x27] @ ''t forget to lock after you unlock'')) = None"
    by code_simp
  have h3: "matched (re_search (word_re ''unlock'')
              (py_lower (''don'' @ [CHR 0x27] @ ''t forget to lock after you unlock'')))"
    by code_simp
  have h4: "matched (re_search (word_re ''lock'')
              (py_lower (''don'' @ [CHR 0x27] @ ''t forget to lock after you unlock'')))"
    by code_simp
  from unlock_rule_precedes_lock [OF h1 h2 h3, of demo_home] h1 h2 h3 h4
  show ?thesis by blast
qed

text \<open>
  Claim C6. On a registry that has the room \<open>living_room\<close> (and no room called
  \<open>living\<close>), the parser maps \<open>set living room temperature to 25\<close> to the intent
  set_temperature with room living_room and temperature 25.0, and
  \<open>increase the living room temperature by 2\<close> to adjust_temperature with room
  living_room and delta 2.0. For every command that the relative rule matches (and the
  absolute rule does not), the intent is adjust_temperature with a delta whose magnitude is
  the number captured after \<open>by\<close>, or 1.0 when none was captured, and whose sign is
  negative exactly for the direction words decrease, lower and cooler.
\<close>

theorem temperature_intents:
  assumes "''living_room'' \<in> set (available_rooms c)"
      and "''living'' \<notin> set (available_rooms c)"
      and "re_search temp_re (py_lower cmd) = None"
      and "re_search rel_re (py_lower cmd) = Some m"
  shows "rule_based_intent c ''set living room temperature to 25'' =
           Inr (IDict [(''action'', IStr ''set_temperature''), (''targets'', IList []),
                  (''parameters'',
                     IDict [(''room'', IStr ''living_room''), (''temperature'', IFloat 25)])]) \<and>
         rule_based_intent c ''increase the living room temperature by 2'' =
           Inr (IDict [(''action'', IStr ''adjust_temperature''), (''targets'', IList []),
                  (''parameters'',
                     IDict [(''room'', IStr ''living_room''), (''delta'', IFloat 2)])]) \<and>
         (\<exists>room.
            rule_based_intent c cmd =
              Inr (IDict [(''action'', IStr ''adjust_temperature''), (''targets'', IList []),
                     (''parameters'',
                        IDict [(''room'', room),
                               (''delta'',
                                IFloat
                                  ((if group m 1 \<in> {Some ''decrease'', Some ''lower'', Some ''cooler''}
                                    then - 1 else 1)
                                   * (case group m 2 of
                                        None \<Rightarrow> 1
                                      | Some d \<Rightarrow> if d = [] then 1 else py_float d)))])]))"
proof -
  have "\<exists>room.
            rule_based_intent c cmd =
              Inr (IDict [(''action'', IStr ''adjust_temperature''), (''targets'', IList []),
                     (''parameters'',
                        IDict [(''room'', room),
                               (''delta'',
                                IFloat
                                  ((if group m 1 \<in> {Some ''decrease'', Some ''lower'', Some ''cooler''}
                                    then - 1 else 1)
                                   * (case group m 2 of
                                        None \<Rightarrow> 1
                                      | Some d \<Rightarrow> if d = [] then 1 else py_float d)))])])"
    using assms(3,4)
    by (simp add: rule_based_intent_def Let_def adjust_intent_def truthy_def or_default_def
          split: option.splits del: One_nat_def)
  with set_temperature_example [OF assms(1,2)] increase_temperature_example [OF assms(1,2)]
  show ?thesis by blast
qed

theorem temperature_intents_witness:
  "''living_room'' \<in> set (available_rooms demo_home) \<and>
   re_search temp_re (py_lower ''lower the temperature'') = None \<and>
   rule_based_intent demo_home ''set living room temperature to 25'' =
     Inr (IDict [(''action'', IStr ''set_temperature''), (''targets'', IList []),
            (''parameters'',
               IDict [(''room'', IStr ''living_room''), (''temperature'', IFloat 25)])]) \<and>
   (\<exists>room. rule_based_intent demo_home ''lower the temperature'' =
      Inr (IDict [(''action'', IStr ''adjust_temperature''), (''targets'', IList []),
             (''parameters'', IDict [(''room'', room), (''delta'', IFloat (- 1))])])) \<and>
   (\<exists>room. rule_based_intent demo_home ''raise the temperature by 4'' =
      Inr (IDict [(''action'', IStr ''adjust_temperature''), (''targets'', IList []),
             (''parameters'', IDict [(''room'', room), (''delta'', IFloat 4)])]))"
proof -
  have r1: "''living_room'' \<in> set (available_rooms demo_home)" by code_simp
  have r2: "''living'' \<notin> set (available_rooms demo_home)" by code_simp
  have t1: "re_search temp_re (py_lower ''lower the temperature'') = None" by code_simp
  have t2: "re_search temp_re (py_lower ''raise the temperature by 4'') = None" by code_simp
  have "case re_search rel_re (py_lower ''lower the temperature'') of
          None \<Rightarrow> False | Some m \<Rightarrow> group m 1 = Some ''lower'' \<and> group m 2 = None"
    by code_simp
  then obtain m1 where m1: "re_search rel_re (py_lower ''lower the temperature'') = Some m1"
      "group m1 1 = Some ''lower''" "group m1 2 = None"
    using search_cases [where r = rel_re and P = "\<lambda>m. group m 1 = Some ''lower'' \<and> group m 2 = None"]
    by blast
  have "case re_search rel_re (py_lower ''raise the temperature by 4'') of
          None \<Rightarrow> False | Some m \<Rightarrow> group m 1 = Some ''raise'' \<and> group m 2 = Some ''4''"
    by code_simp
  then obtain m2 where m2: "re_search rel_re (py_lower ''raise the temperature by 4'') = Some m2"
      "group m2 1 = Some ''raise''" "group m2 2 = Some ''4''"
    using search_cases [where r = rel_re and P = "\<lambda>m. group m 1 = Some ''raise'' \<and> group m 2 = Some ''4''"]
    by blast
  have f: "py_float ''4'' = 4" by code_simp
  from temperature_intents [OF r1 r2 t1 m1(1)] temperature_intents [OF r1 r2 t2 m2(1)]
  show ?thesis
    using r1 t1 by (simp add: m1 m2 f del: One_nat_def)
qed

section \<open>Properties of the workflow\<close>

lemma execute_action_results:
  assumes "st_intent st = Some (IDict [(''action'', IStr ''tool_agent''),
                                       (''parameters'', IDict [(''command'', IStr cmd)])])"
  shows "\<exists>a' results.
           execute_action a st = Inr (a', st\<lparr>st_results := Some results\<rparr>) \<and>
           command_history (controller_of a') =
             (case agent_executor a of None \<Rightarrow> command_history (controller_of a)
              | Some ex \<Rightarrow> command_history (snd (ex cmd (controller_of a)))) \<and>
           (\<forall>ex model e.
              agent_executor a = Some ex \<and> llm a = Some model \<and>
              fst (ex cmd (controller_of a)) = Inl e \<longrightarrow>
              results = [case model (fallback_prompt cmd) of Inl e' \<Rightarrow> friendly | Inr text \<Rightarrow> text])"
  using assms
  by (auto simp: execute_action_def Let_def ival_get_def try_except_def and_then_def
        split: option.splits sum.splits prod.splits)

text \<open>
  Claim C1. For every agent and every command, \<open>process_command\<close> returns a string; no
  exception of the executor or of the model reaches the caller. When the executor raises, the
  model is asked once without tools, and the response is its text; when that call raises
  too, the response is the fixed apology.
\<close>

theorem process_command_never_raises:
  "\<exists>a' response.
     process_command a cmd = Inr (a', response) \<and>
     (\<forall>ex model e.
        agent_executor a = Some ex \<and> llm a = Some model \<and>
        fst (ex cmd (controller_of a)) = Inl e \<longrightarrow>
        response =
          (case model (fallback_prompt cmd) of
             Inl e' \<Rightarrow> ''Sorry, I hit a parsing hiccup. Please rephrase or try again.''
           | Inr text \<Rightarrow> text))"
proof -
  define intent where "intent = IDict [(''action'', IStr ''tool_agent''),
                                       (''parameters'', IDict [(''command'', IStr cmd)])]"
  define a1 where "a1 = a\<lparr>last_intent := Some intent\<rparr>"
  define s1 where "s1 = \<lparr>st_command = Some cmd, st_intent = Some intent, st_results = None,
             st_learned_patterns = None, st_response = None\<rparr>"
  have p: "parse_intent a \<lparr>st_command = Some cmd, st_intent = None, st_results = None,
             st_learned_patterns = None, st_response = None\<rparr> = Inr (a1, s1)"
    by (simp add: parse_intent_def a1_def s1_def intent_def Let_def)
  have "st_intent s1 = Some (IDict [(''action'', IStr ''tool_agent''),
                                    (''parameters'', IDict [(''command'', IStr cmd)])])"
    by (simp add: s1_def intent_def)
  from execute_action_results [OF this, of a1]
  obtain a2 results where e: "execute_action a1 s1 = Inr (a2, s1\<lparr>st_results := Some results\<rparr>)"
    and r: "\<forall>ex model e.
              agent_executor a1 = Some ex \<and> llm a1 = Some model \<and>
              fst (ex cmd (controller_of a1)) = Inl e \<longrightarrow>
              results = [case model (fallback_prompt cmd) of Inl e' \<Rightarrow> friendly | Inr text \<Rightarrow> text]"
    by blast
  obtain a3 s3 where l: "learn_from_history a2 (s1\<lparr>st_results := Some results\<rparr>) = Inr (a3, s3)"
    and s3: "st_results s3 = Some results" "st_command s3 = Some cmd"
    by (cases "10 < length (command_history (controller_of a2))")
       (simp_all add: learn_from_history_def Let_def s1_def)
  define response where "response =
     (if results \<noteq> [] then py_join [CHR 0x0A] results
      else ''I couldn'' @ [CHR 0x27] @ ''t understand that command. Please try again.'')"
  obtain a4 s4 where g: "generate_response a3 s3 = Inr (a4, s4)"
    and s4: "st_response s4 = Some response"
    by (simp add: generate_response_def Let_def s3 response_def)
  have pc: "process_command a cmd = Inr (a4, response)"
    by (simp add: process_command_def Let_def and_then_def p e l g s4)
  have "response =
          (case model (fallback_prompt cmd) of
             Inl e' \<Rightarrow> ''Sorry, I hit a parsing hiccup. Please rephrase or try again.''
           | Inr text \<Rightarrow> text)"
    if "agent_executor a = Some ex \<and> llm a = Some model \<and> fst (ex cmd (controller_of a)) = Inl e"
    for ex model e
  proof -
    from that r have "results =
        [case model (fallback_prompt cmd) of Inl e' \<Rightarrow> friendly | Inr text \<Rightarrow> text]"
      by (simp add: a1_def)
    then show ?thesis by (simp add: response_def friendly_def split: sum.splits)
  qed
  with pc show ?thesis by blast
qed

theorem process_command_never_raises_witness:
  "(\<exists>a'. process_command (demo_agent (\<lambda>prompt. Inl (Exception ''connection refused'')))
            ''turn on lights''
          = Inr (a', ''Sorry, I hit a parsing hiccup. Please rephrase or try again.'')) \<and>
   (\<exists>a'. process_command (demo_agent (\<lambda>prompt. Inr ''I cannot reach the lights.''))
            ''turn on lights''
          = Inr (a', ''I cannot reach the lights.''))"
  using process_command_never_raises
          [of "demo_agent (\<lambda>prompt. Inl (Exception ''connection refused''))" "''turn on lights''"]
        process_command_never_raises
          [of "demo_agent (\<lambda>prompt. Inr ''I cannot reach the lights.'')" "''turn on lights''"]
  by (auto simp: demo_agent_def)

end
